theory Spec2Isabelle
  imports Main "HOL-Library.AList" "HOL-Library.Sublist" "HOL-Library.Word"
begin

section \<open>Python values and dictionaries\<close>

text \<open>
  The values \<^verbatim>\<open>TomlDict\<close> stores. A Python \<^verbatim>\<open>dict\<close> keeps its keys unique and
  in insertion order, so it is an association list; \<^verbatim>\<open>d[k] = v\<close> is
  \<^const>\<open>AList.update\<close> (the value is replaced where the key stands, a new key goes to
  the end) and \<^verbatim>\<open>k in d\<close> / \<^verbatim>\<open>d[k]\<close> is \<^const>\<open>map_of\<close>. Keys are strings, as
  in a TOML document. \<^verbatim>\<open>PDict\<close> is a plain \<^verbatim>\<open>dict\<close>, \<^verbatim>\<open>TomlDict\<close> an instance
  of the class; every value that is neither a \<^verbatim>\<open>dict\<close> nor a \<^verbatim>\<open>list\<close> is a leaf
  for the code below. A float is its IEEE bit pattern.
\<close>

datatype pyval =
    PNone
  | PBool bool
  | PInt int
  | PFloat "64 word"
  | PStr string
  | PList "pyval list"
  | PDict "(string \<times> pyval) list"
  | TomlDict "(string \<times> pyval) list"

datatype error =
    ValueError
  | IndexError
  | TypeError
  | LookupError
  | UnicodeError
  | OSError
  | ParseError
  | SerializeError
  | Unsupported

text \<open>\<^verbatim>\<open>isinstance(v, dict)\<close>, with the items when it holds; \<^verbatim>\<open>TomlDict\<close> is a subclass
  of \<^verbatim>\<open>dict\<close>.\<close>

fun dict_items :: "pyval \<Rightarrow> (string \<times> pyval) list option" where
  "dict_items (PDict kvs) = Some kvs"
| "dict_items (TomlDict kvs) = Some kvs"
| "dict_items v = None"

definition is_dict :: "pyval \<Rightarrow> bool" where
  "is_dict v = (dict_items v \<noteq> None)"

section \<open>TomlDict: wrapping and unwrapping\<close>

text \<open>
  \<^verbatim>\<open>_wrap\<close>: a \<^verbatim>\<open>dict\<close> that is not a \<^verbatim>\<open>TomlDict\<close> becomes \<^verbatim>\<open>cls(value)\<close>, whose
  \<^verbatim>\<open>__init__\<close> copies the items and replaces every value by its wrapped form; a list is
  rebuilt with wrapped elements; anything else, a \<^verbatim>\<open>TomlDict\<close> included, is returned as
  it is.
\<close>

primrec wrap :: "pyval \<Rightarrow> pyval" where
  "wrap PNone = PNone"
| "wrap (PBool b) = PBool b"
| "wrap (PInt i) = PInt i"
| "wrap (PFloat x) = PFloat x"
| "wrap (PStr s) = PStr s"
| "wrap (PList vs) = PList (map wrap vs)"
| "wrap (PDict kvs) = TomlDict (map (map_prod id wrap) kvs)"
| "wrap (TomlDict kvs) = TomlDict kvs"

text \<open>
  \<^verbatim>\<open>_unwrap\<close>: a \<^verbatim>\<open>TomlDict\<close> becomes a plain \<^verbatim>\<open>dict\<close> of unwrapped values, a list
  is rebuilt with unwrapped elements, anything else (a plain \<^verbatim>\<open>dict\<close> included) is
  returned as it is.
\<close>

primrec unwrap :: "pyval \<Rightarrow> pyval" where
  "unwrap PNone = PNone"
| "unwrap (PBool b) = PBool b"
| "unwrap (PInt i) = PInt i"
| "unwrap (PFloat x) = PFloat x"
| "unwrap (PStr s) = PStr s"
| "unwrap (PList vs) = PList (map unwrap vs)"
| "unwrap (PDict kvs) = PDict kvs"
| "unwrap (TomlDict kvs) = PDict (map (map_prod id unwrap) kvs)"

text \<open>
  A \<^verbatim>\<open>TomlDict\<close> object: the items of the mapping, and the instance attributes that
  \<^verbatim>\<open>__setattr__\<close> stores outside the mapping for names that start with an underscore.
\<close>

record tomldict =
  items :: "(string \<times> pyval) list"
  attrs :: "(string \<times> pyval) list"

text \<open>
  \<^verbatim>\<open>__init__\<close>, given the items \<^verbatim>\<open>dict(*args, **kwargs)\<close> starts with: the loop visits
  every key once and replaces its value by the wrapped one.
\<close>

definition TomlDict_init :: "(string \<times> pyval) list \<Rightarrow> tomldict" where
  "TomlDict_init d = \<lparr>items = map (map_prod id wrap) d, attrs = []\<rparr>"

text \<open>\<^verbatim>\<open>__setitem__\<close>: every insertion stores the wrapped value.\<close>

definition setitem :: "(string \<times> pyval) list \<Rightarrow> string \<Rightarrow> pyval \<Rightarrow> (string \<times> pyval) list" where
  "setitem self k v = AList.update k (wrap v) self"

text \<open>\<^verbatim>\<open>__setattr__\<close>: a name that starts with \<^verbatim>\<open>_\<close> is set as an attribute of the
  object, any other name is an item of the mapping.\<close>

definition setattr :: "tomldict \<Rightarrow> string \<Rightarrow> pyval \<Rightarrow> tomldict" where
  "setattr self k v =
     (if prefix ''_'' k then self\<lparr>attrs := AList.update k v (attrs self)\<rparr>
      else self\<lparr>items := setitem (items self) k v\<rparr>)"

text \<open>\<^verbatim>\<open>to_dict\<close>.\<close>

definition to_dict :: "tomldict \<Rightarrow> pyval" where
  "to_dict self = unwrap (TomlDict (items self))"

section \<open>Paths\<close>

text \<open>
  \<^verbatim>\<open>str.split(sep)\<close> with a separator given: the pieces between the occurrences of
  \<^verbatim>\<open>sep\<close>, found from the left and not overlapping; an empty separator raises
  \<^verbatim>\<open>ValueError\<close>. \<open>split_from sep piece s\<close> scans \<open>s\<close> with the current piece's
  characters in \<open>piece\<close>, last first.
\<close>

function split_from :: "string \<Rightarrow> string \<Rightarrow> string \<Rightarrow> string list" where
  "split_from sep piece [] = [rev piece]"
| "split_from sep piece (c # cs) =
     (if sep \<noteq> [] \<and> prefix sep (c # cs)
      then rev piece # split_from sep [] (drop (length sep) (c # cs))
      else split_from sep (c # piece) cs)"
  by pat_completeness auto
termination
  by (relation "measure (\<lambda>(sep, piece, s). length s)") auto

definition split :: "string \<Rightarrow> string \<Rightarrow> error + string list" where
  "split s sep = (if sep = [] then Inl ValueError else Inr (split_from sep [] s))"

text \<open>A path argument is a string, split at the separator, or a sequence of keys.\<close>

datatype path = PathStr string | PathKeys "string list"

definition path_keys :: "path \<Rightarrow> string \<Rightarrow> error + string list" where
  "path_keys p sep = (case p of PathStr s \<Rightarrow> split s sep | PathKeys ks \<Rightarrow> Inr ks)"

text \<open>The loop of \<^verbatim>\<open>get_nested\<close>: \<open>current\<close> moves down while it is a \<^verbatim>\<open>dict\<close> that
  has the key, and the default is returned at the first key where it is not.\<close>

fun walk :: "pyval \<Rightarrow> string list \<Rightarrow> pyval \<Rightarrow> pyval" where
  "walk current [] dflt = current"
| "walk current (k # ks) dflt =
     (case dict_items current of
        None \<Rightarrow> dflt
      | Some kvs \<Rightarrow> (case map_of kvs k of None \<Rightarrow> dflt | Some v \<Rightarrow> walk v ks dflt))"

definition get_nested :: "tomldict \<Rightarrow> path \<Rightarrow> pyval \<Rightarrow> string \<Rightarrow> error + pyval" where
  "get_nested self p dflt sep =
     (case path_keys p sep of
        Inl e \<Rightarrow> Inl e
      | Inr ks \<Rightarrow> Inr (walk (TomlDict (items self)) ks dflt))"

text \<open>
  \<^verbatim>\<open>set_nested\<close>. \<open>set_path wrapping kvs ks v\<close> is the loop and the final store on the
  mapping \<open>kvs\<close> that \<^verbatim>\<open>current\<close> names; \<open>wrapping\<close> says that \<^verbatim>\<open>current\<close> is a
  \<^verbatim>\<open>TomlDict\<close>, whose \<^verbatim>\<open>__setitem__\<close> wraps, and not a plain \<^verbatim>\<open>dict\<close>. Where
  \<^verbatim>\<open>current[key]\<close> is a \<^verbatim>\<open>dict\<close> the loop descends into it and the change is
  made inside it; otherwise a new empty \<^verbatim>\<open>TomlDict\<close> is stored under the key first.
  The key list is never empty here: \<^verbatim>\<open>keys[-1]\<close> raises \<^verbatim>\<open>IndexError\<close> on an
  empty one, before anything is stored.
\<close>

fun set_path :: "bool \<Rightarrow> (string \<times> pyval) list \<Rightarrow> string list \<Rightarrow> pyval \<Rightarrow> (string \<times> pyval) list" where
  "set_path wrapping kvs [] v = kvs"
| "set_path wrapping kvs [k] v = AList.update k (if wrapping then wrap v else v) kvs"
| "set_path wrapping kvs (k # ks) v =
     (case map_of kvs k of
        Some (TomlDict sub) \<Rightarrow> AList.update k (TomlDict (set_path True sub ks v)) kvs
      | Some (PDict sub) \<Rightarrow> AList.update k (PDict (set_path False sub ks v)) kvs
      | _ \<Rightarrow> AList.update k (TomlDict (set_path True [] ks v)) kvs)"

definition set_nested :: "tomldict \<Rightarrow> path \<Rightarrow> pyval \<Rightarrow> string \<Rightarrow> error + tomldict" where
  "set_nested self p v sep =
     (case path_keys p sep of
        Inl e \<Rightarrow> Inl e
      | Inr ks \<Rightarrow>
          if ks = [] then Inl IndexError
          else Inr (self\<lparr>items := set_path True (items self) ks v\<rparr>))"

section \<open>Flattening\<close>

text \<open>\<^verbatim>\<open>str(i)\<close> for an index: the decimal digits.\<close>

definition digit_char :: "nat \<Rightarrow> char" where
  "digit_char d = ''0123456789'' ! d"

fun str_nat :: "nat \<Rightarrow> string" where
  "str_nat n = (if n < 10 then [digit_char n] else str_nat (n div 10) @ [digit_char (n mod 10)])"

declare str_nat.simps [simp del]

text \<open>The key of an item below \<open>current_key\<close>: an empty \<open>current_key\<close> adds no
  separator.\<close>

definition new_key :: "string \<Rightarrow> string \<Rightarrow> string \<Rightarrow> string" where
  "new_key current_key sep k = (if current_key \<noteq> [] then current_key @ sep @ k else k)"

definition index_key :: "string \<Rightarrow> nat \<Rightarrow> string" where
  "index_key current_key i = current_key @ ''['' @ str_nat i @ '']''"

text \<open>
  \<^verbatim>\<open>_flatten_recursive\<close>, with the \<^verbatim>\<open>result\<close> dictionary it writes to passed
  along. A list is entered only when it is not empty and its first element is a
  \<^verbatim>\<open>dict\<close>; \<open>flatten_elems\<close> is the \<^verbatim>\<open>enumerate\<close> loop, with the next index.
\<close>

fun flatten_rec :: "string \<Rightarrow> pyval \<Rightarrow> string \<Rightarrow> (string \<times> pyval) list \<Rightarrow> (string \<times> pyval) list"
  and flatten_items :: "string \<Rightarrow> (string \<times> pyval) list \<Rightarrow> string \<Rightarrow> (string \<times> pyval) list \<Rightarrow> (string \<times> pyval) list"
  and flatten_elems :: "string \<Rightarrow> pyval list \<Rightarrow> string \<Rightarrow> nat \<Rightarrow> (string \<times> pyval) list \<Rightarrow> (string \<times> pyval) list"
where
  "flatten_rec sep (PDict kvs) current_key res = flatten_items sep kvs current_key res"
| "flatten_rec sep (TomlDict kvs) current_key res = flatten_items sep kvs current_key res"
| "flatten_rec sep (PList []) current_key res = AList.update current_key (PList []) res"
| "flatten_rec sep (PList (x # xs)) current_key res =
     (if is_dict x then flatten_elems sep (x # xs) current_key 0 res
      else AList.update current_key (PList (x # xs)) res)"
| "flatten_rec sep v current_key res = AList.update current_key v res"
| "flatten_items sep [] current_key res = res"
| "flatten_items sep ((k, v) # kvs) current_key res =
     flatten_items sep kvs current_key (flatten_rec sep v (new_key current_key sep k) res)"
| "flatten_elems sep [] current_key i res = res"
| "flatten_elems sep (x # xs) current_key i res =
     flatten_elems sep xs current_key (Suc i) (flatten_rec sep x (index_key current_key i) res)"

definition flatten :: "tomldict \<Rightarrow> string \<Rightarrow> string \<Rightarrow> (string \<times> pyval) list" where
  "flatten self sep parent_key = flatten_rec sep (TomlDict (items self)) parent_key []"

section \<open>The TOML value model and the codec behind the wrappers\<close>

text \<open>
  The value tree that \<^verbatim>\<open>loads\<close> returns and \<^verbatim>\<open>dumps\<close> takes: strings, integers,
  floats (the IEEE bit pattern), booleans, the four date and time shapes with their
  literal, arrays, tables in insertion order, and the null marker (Python's
  \<^verbatim>\<open>None\<close>). Text is a list of characters and a byte buffer a list of bytes;
  \<^typ>\<open>char\<close> covers the code points below 256, which is enough to tell a count of
  characters from a count of bytes.
\<close>

type_synonym byte = "8 word"

datatype datetime_shape = OffsetDateTime | LocalDateTime | LocalDate | LocalTime

datatype toml_value =
    String string
  | Integer int
  | Float "64 word"
  | Boolean bool
  | DateTime datetime_shape string
  | Array "toml_value list"
  | Table "(string \<times> toml_value) list"
  | Null

text \<open>What \<^verbatim>\<open>loads\<close> is handed as \<^verbatim>\<open>toml\<close>: a \<^verbatim>\<open>str\<close>, or a byte buffer that
  \<^verbatim>\<open>load\<close> passed on as it came.\<close>

datatype toml_arg = ArgStr string | ArgBytes "byte list"

text \<open>A text encoding of Python's codec registry: both directions fail on what the
  encoding cannot represent.\<close>

record codec =
  encode :: "string \<Rightarrow> byte list option"
  decode :: "byte list \<Rightarrow> string option"

text \<open>
  What the module imports and does not define: \<^verbatim>\<open>rtoml.loads\<close> and \<^verbatim>\<open>rtoml.dumps\<close>,
  with the keyword arguments the wrappers pass, and the codec registry that
  \<^verbatim>\<open>str.encode\<close>, \<^verbatim>\<open>bytes.decode\<close> and the file functions look an encoding's name
  up in.
\<close>

record deps =
  rtoml_loads :: "toml_arg \<Rightarrow> string option \<Rightarrow> error + toml_value"
  rtoml_dumps :: "toml_value \<Rightarrow> bool \<Rightarrow> string option \<Rightarrow> error + string"
  lookup :: "string \<Rightarrow> codec option"

text \<open>
  Modelled from the spec: the Document Facade of the codec (section 4.4), which is what
  \<^verbatim>\<open>rtoml.loads\<close> and \<^verbatim>\<open>rtoml.dumps\<close> are to this module and is not in its
  source. \<open>sentinel_to_null s\<close> is the walk after parsing, "converting any scalar String
  value exactly equal to noneValue into the internal Null marker"; \<open>null_to_sentinel s\<close>
  is the walk before serializing, "converting every internal Null marker into a
  String(noneValue) node". Both build a new tree.
\<close>

primrec sentinel_to_null :: "string \<Rightarrow> toml_value \<Rightarrow> toml_value" where
  "sentinel_to_null s (String x) = (if x = s then Null else String x)"
| "sentinel_to_null s (Integer i) = Integer i"
| "sentinel_to_null s (Float x) = Float x"
| "sentinel_to_null s (Boolean b) = Boolean b"
| "sentinel_to_null s (DateTime k x) = DateTime k x"
| "sentinel_to_null s (Array vs) = Array (map (sentinel_to_null s) vs)"
| "sentinel_to_null s (Table kvs) = Table (map (map_prod id (sentinel_to_null s)) kvs)"
| "sentinel_to_null s Null = Null"

primrec null_to_sentinel :: "string \<Rightarrow> toml_value \<Rightarrow> toml_value" where
  "null_to_sentinel s (String x) = String x"
| "null_to_sentinel s (Integer i) = Integer i"
| "null_to_sentinel s (Float x) = Float x"
| "null_to_sentinel s (Boolean b) = Boolean b"
| "null_to_sentinel s (DateTime k x) = DateTime k x"
| "null_to_sentinel s (Array vs) = Array (map (null_to_sentinel s) vs)"
| "null_to_sentinel s (Table kvs) = Table (map (map_prod id (null_to_sentinel s)) kvs)"
| "null_to_sentinel s Null = String s"

text \<open>
  Modelled from the spec: \<^verbatim>\<open>parseDocument(source, noneValue?)\<close> "runs Parser, then walks
  the resulting tree" when a sentinel is configured, and
  \<^verbatim>\<open>renderDocument(value, pretty, noneValue)\<close> walks the tree, "then invokes
  Serializer"; with no sentinel the tree goes to the serializer as it is, which fails
  on a null marker. The parser and the serializer are the components of sections 4.1
  to 4.3, taken as they come: \<open>parser\<close> from text to the root table, \<open>serializer\<close>
  from a tree and the pretty flag to text.
\<close>

type_synonym parser = "string \<Rightarrow> error + toml_value"

type_synonym serializer = "toml_value \<Rightarrow> bool \<Rightarrow> error + string"

definition parseDocument :: "parser \<Rightarrow> string \<Rightarrow> string option \<Rightarrow> error + toml_value" where
  "parseDocument P source noneValue =
     (case P source of
        Inl e \<Rightarrow> Inl e
      | Inr t \<Rightarrow> Inr (case noneValue of None \<Rightarrow> t | Some s \<Rightarrow> sentinel_to_null s t))"

definition renderDocument :: "serializer \<Rightarrow> toml_value \<Rightarrow> bool \<Rightarrow> string option \<Rightarrow> error + string" where
  "renderDocument S v pretty noneValue =
     S (case noneValue of None \<Rightarrow> v | Some s \<Rightarrow> null_to_sentinel s v) pretty"

text \<open>
  Modelled from the spec: the dependencies with the codec of the spec in the place of
  \<^verbatim>\<open>rtoml\<close>. The source of \<^verbatim>\<open>loads\<close> is text (\<^verbatim>\<open>toml: str\<close>); what is not a
  \<^verbatim>\<open>str\<close> is refused with \<^verbatim>\<open>TypeError\<close>.
\<close>

definition spec_deps :: "parser \<Rightarrow> serializer \<Rightarrow> (string \<Rightarrow> codec option) \<Rightarrow> deps" where
  "spec_deps P S reg =
     \<lparr>rtoml_loads = (\<lambda>a noneValue. case a of ArgStr source \<Rightarrow> parseDocument P source noneValue
                                            | ArgBytes bs \<Rightarrow> Inl TypeError),
      rtoml_dumps = renderDocument S,
      lookup = reg\<rparr>"

section \<open>Files and streams\<close>

text \<open>
  A stream is its content, the position of the next read or write, and whether it is
  closed, as \<^verbatim>\<open>StringIO\<close> and \<^verbatim>\<open>BytesIO\<close> are. \<^verbatim>\<open>read()\<close> returns what lies from
  the position on and moves to the end; \<^verbatim>\<open>write(s)\<close> puts \<open>s\<close> at the position, over
  what is there, after filling up to the position with \<open>pad\<close> if the content ends before
  it, and returns the number of units of \<open>s\<close>. Both raise \<^verbatim>\<open>ValueError\<close> on a closed
  stream.
\<close>

record 'a stream =
  content :: "'a list"
  position :: nat
  closed :: bool

definition stream_read :: "'a stream \<Rightarrow> error + 'a list \<times> 'a stream" where
  "stream_read f =
     (if closed f then Inl ValueError
      else Inr (drop (position f) (content f), f\<lparr>position := max (position f) (length (content f))\<rparr>))"

definition stream_write :: "'a \<Rightarrow> 'a stream \<Rightarrow> 'a list \<Rightarrow> error + nat \<times> 'a stream" where
  "stream_write pad f s =
     (if closed f then Inl ValueError
      else Inr (length s,
             f\<lparr>content := take (position f) (content f)
                           @ replicate (position f - length (content f)) pad
                           @ s @ drop (position f + length s) (content f),
               position := position f + length s\<rparr>))"

text \<open>
  The world outside the module: the caller's objects by address, the files by path,
  and the open text and binary streams by handle.
\<close>

record world =
  objects :: "nat \<Rightarrow> toml_value option"
  files :: "string \<Rightarrow> byte list option"
  text_streams :: "nat \<Rightarrow> char stream option"
  binary_streams :: "nat \<Rightarrow> byte stream option"

text \<open>\<^verbatim>\<open>s.encode(encoding)\<close> and \<^verbatim>\<open>b.decode(encoding)\<close>: \<^verbatim>\<open>LookupError\<close> for a name
  the registry does not know, \<^verbatim>\<open>UnicodeError\<close> where the encoding cannot represent the
  input.\<close>

definition str_encode :: "deps \<Rightarrow> string \<Rightarrow> string \<Rightarrow> error + byte list" where
  "str_encode E s encoding =
     (case lookup E encoding of
        None \<Rightarrow> Inl LookupError
      | Some c \<Rightarrow> (case encode c s of None \<Rightarrow> Inl UnicodeError | Some bs \<Rightarrow> Inr bs))"

definition bytes_decode :: "deps \<Rightarrow> byte list \<Rightarrow> string \<Rightarrow> error + string" where
  "bytes_decode E bs encoding =
     (case lookup E encoding of
        None \<Rightarrow> Inl LookupError
      | Some c \<Rightarrow> (case decode c bs of None \<Rightarrow> Inl UnicodeError | Some s \<Rightarrow> Inr s))"

text \<open>\<^verbatim>\<open>Path.read_text(encoding)\<close>: \<^verbatim>\<open>OSError\<close> when there is no such file.\<close>

definition read_text :: "deps \<Rightarrow> world \<Rightarrow> string \<Rightarrow> string \<Rightarrow> error + string" where
  "read_text E w p encoding =
     (case files w p of None \<Rightarrow> Inl OSError | Some bs \<Rightarrow> bytes_decode E bs encoding)"

text \<open>
  \<^verbatim>\<open>Path.write_text(s, encoding)\<close> opens the file for writing, which empties it, writes
  the encoded text and returns the number of characters of \<open>s\<close>; when the encoding
  fails the file stays empty. The file system of the model accepts every write.
\<close>

definition write_text :: "deps \<Rightarrow> world \<Rightarrow> string \<Rightarrow> string \<Rightarrow> string \<Rightarrow> (error + nat) \<times> world" where
  "write_text E w p s encoding =
     (case str_encode E s encoding of
        Inl e \<Rightarrow> (Inl e, w\<lparr>files := (files w)(p \<mapsto> [])\<rparr>)
      | Inr bs \<Rightarrow> (Inr (length s), w\<lparr>files := (files w)(p \<mapsto> bs)\<rparr>))"

text \<open>\<^verbatim>\<open>file.read()\<close> and \<^verbatim>\<open>file.write(data)\<close> on a stream of the world.\<close>

definition text_read :: "world \<Rightarrow> nat \<Rightarrow> error + string \<times> world" where
  "text_read w h =
     (case text_streams w h of
        None \<Rightarrow> Inl ValueError
      | Some f \<Rightarrow> (case stream_read f of
                    Inl e \<Rightarrow> Inl e
                  | Inr (s, f') \<Rightarrow> Inr (s, w\<lparr>text_streams := (text_streams w)(h \<mapsto> f')\<rparr>)))"

definition binary_read :: "world \<Rightarrow> nat \<Rightarrow> error + byte list \<times> world" where
  "binary_read w h =
     (case binary_streams w h of
        None \<Rightarrow> Inl ValueError
      | Some f \<Rightarrow> (case stream_read f of
                    Inl e \<Rightarrow> Inl e
                  | Inr (bs, f') \<Rightarrow> Inr (bs, w\<lparr>binary_streams := (binary_streams w)(h \<mapsto> f')\<rparr>)))"

definition text_write :: "world \<Rightarrow> nat \<Rightarrow> string \<Rightarrow> (error + nat) \<times> world" where
  "text_write w h s =
     (case text_streams w h of
        None \<Rightarrow> (Inl ValueError, w)
      | Some f \<Rightarrow> (case stream_write (CHR 0x00) f s of
                    Inl e \<Rightarrow> (Inl e, w)
                  | Inr (n, f') \<Rightarrow> (Inr n, w\<lparr>text_streams := (text_streams w)(h \<mapsto> f')\<rparr>)))"

definition binary_write :: "world \<Rightarrow> nat \<Rightarrow> byte list \<Rightarrow> (error + nat) \<times> world" where
  "binary_write w h bs =
     (case binary_streams w h of
        None \<Rightarrow> (Inl ValueError, w)
      | Some f \<Rightarrow> (case stream_write 0 f bs of
                    Inl e \<Rightarrow> (Inl e, w)
                  | Inr (n, f') \<Rightarrow> (Inr n, w\<lparr>binary_streams := (binary_streams w)(h \<mapsto> f')\<rparr>)))"

section \<open>loads, load, dumps, dump\<close>

text \<open>A keyword argument that a call may leave out: \<open>None\<close> is the call without it,
  and the default of the signature stands in.\<close>

definition arg_or :: "'a \<Rightarrow> 'a option \<Rightarrow> 'a" where
  "arg_or dflt a = (case a of None \<Rightarrow> dflt | Some x \<Rightarrow> x)"

text \<open>\<^verbatim>\<open>loads(toml, *, none_value=None)\<close>.\<close>

definition loads :: "deps \<Rightarrow> toml_arg \<Rightarrow> string option option \<Rightarrow> error + toml_value" where
  "loads E toml none_value = rtoml_loads E toml (arg_or None none_value)"

text \<open>
  What \<^verbatim>\<open>load\<close> is given as \<^verbatim>\<open>toml\<close>: a \<^verbatim>\<open>Path\<close>, a text stream
  (\<^verbatim>\<open>TextIOBase\<close>), a binary stream (\<^verbatim>\<open>BufferedIOBase\<close>), a \<^verbatim>\<open>str\<close>, or a byte
  buffer, which no branch of \<^verbatim>\<open>load\<close> tests for.
\<close>

datatype loadable =
    FromPath string
  | FromTextStream nat
  | FromBinaryStream nat
  | FromStr string
  | FromBytes "byte list"

text \<open>\<^verbatim>\<open>load(toml, *, none_value=None, encoding="utf-8")\<close>. Reading a stream moves its
  position, so the world is returned with the result.\<close>

definition load :: "deps \<Rightarrow> world \<Rightarrow> loadable \<Rightarrow> string option option \<Rightarrow> string option
    \<Rightarrow> (error + toml_value) \<times> world" where
  "load E w toml none_value encoding =
     (let nv = arg_or None none_value; enc = arg_or ''utf-8'' encoding in
      case toml of
        FromPath p \<Rightarrow>
          (case read_text E w p enc of
             Inl e \<Rightarrow> (Inl e, w)
           | Inr s \<Rightarrow> (loads E (ArgStr s) (Some nv), w))
      | FromTextStream h \<Rightarrow>
          (case text_read w h of
             Inl e \<Rightarrow> (Inl e, w)
           | Inr (s, w') \<Rightarrow> (loads E (ArgStr s) (Some nv), w'))
      | FromBinaryStream h \<Rightarrow>
          (case binary_read w h of
             Inl e \<Rightarrow> (Inl e, w)
           | Inr (bs, w') \<Rightarrow>
               (case bytes_decode E bs enc of
                  Inl e \<Rightarrow> (Inl e, w')
                | Inr s \<Rightarrow> (loads E (ArgStr s) (Some nv), w')))
      | FromStr s \<Rightarrow> (loads E (ArgStr s) (Some nv), w)
      | FromBytes bs \<Rightarrow> (loads E (ArgBytes bs) (Some nv), w))"

text \<open>\<^verbatim>\<open>dumps(obj, *, pretty=False, none_value="null")\<close>.\<close>

definition dumps :: "deps \<Rightarrow> toml_value \<Rightarrow> bool option \<Rightarrow> string option option \<Rightarrow> error + string" where
  "dumps E obj pretty none_value =
     rtoml_dumps E obj (arg_or False pretty) (arg_or (Some ''null'') none_value)"

text \<open>The \<^verbatim>\<open>file\<close> of \<^verbatim>\<open>dump\<close>: a \<^verbatim>\<open>Path\<close>, a text stream, a binary stream, or
  an object of another type.\<close>

datatype destination =
    ToPath string
  | ToTextStream nat
  | ToBinaryStream nat
  | ToOther

text \<open>\<^verbatim>\<open>dump(obj, file, *, pretty=False, none_value="null", encoding="utf-8")\<close>: the
  text is made first, then the type of \<^verbatim>\<open>file\<close> decides.\<close>

definition dump :: "deps \<Rightarrow> world \<Rightarrow> toml_value \<Rightarrow> destination \<Rightarrow> bool option \<Rightarrow> string option option
    \<Rightarrow> string option \<Rightarrow> (error + nat) \<times> world" where
  "dump E w obj file pretty none_value encoding =
     (let p = arg_or False pretty; nv = arg_or (Some ''null'') none_value;
          enc = arg_or ''utf-8'' encoding in
      case dumps E obj (Some p) (Some nv) of
        Inl e \<Rightarrow> (Inl e, w)
      | Inr s \<Rightarrow>
          (case file of
             ToPath path \<Rightarrow> write_text E w path s enc
           | ToTextStream h \<Rightarrow> text_write w h s
           | ToBinaryStream h \<Rightarrow>
               (case str_encode E s enc of
                  Inl e \<Rightarrow> (Inl e, w)
                | Inr data \<Rightarrow> binary_write w h data)
           | ToOther \<Rightarrow> (Inl TypeError, w)))"

section \<open>A codec for a fragment of TOML\<close>

text \<open>
  Modelled from the spec: the Lexer, the Parser and the Serializer of sections 4.1 to
  4.3, which the module takes from \<^verbatim>\<open>rtoml\<close> and does not hold. The model covers
  documents made of key/value lines with bare, quoted and dotted keys, table headers
  \<^verbatim>\<open>[a.b]\<close> and array-of-tables headers \<^verbatim>\<open>[[a.b]]\<close>, comments and blank lines; the
  values are basic strings, decimal integers, booleans, arrays and inline tables
  written on one line. What TOML has beyond that (floats, dates, literal and
  multi-line strings, arrays over several lines) is answered with \<open>Unsupported\<close>,
  so that \<open>ParseError\<close> and \<open>SerializeError\<close> stand for the errors the spec names
  and for nothing else.
\<close>

subsection \<open>Characters, keys and basic strings\<close>

text \<open>Modelled from the spec: the character classes of the Lexer.\<close>

definition is_space :: "char \<Rightarrow> bool" where
  "is_space c = (c = CHR '' '' \<or> c = CHR 0x09)"

definition skip_ws :: "string \<Rightarrow> string" where
  "skip_ws cs = dropWhile is_space cs"

definition is_digit :: "char \<Rightarrow> bool" where
  "is_digit c = (c \<in> set ''0123456789'')"

definition is_bare :: "char \<Rightarrow> bool" where
  "is_bare c = (c \<in> set ''ABCDEFGHIJKLMNOPQRSTUVWXYZabcdefghijklmnopqrstuvwxyz0123456789_-'')"

definition is_control :: "char \<Rightarrow> bool" where
  "is_control c = ((of_char c :: nat) < 32 \<and> c \<noteq> CHR 0x09 \<or> c = CHR 0x7F)"

definition digit_val :: "char \<Rightarrow> nat" where
  "digit_val c = of_char c - 48"

definition nat_of_digits :: "string \<Rightarrow> nat" where
  "nat_of_digits ds = foldl (\<lambda>a c. 10 * a + digit_val c) 0 ds"

definition hex_val :: "char \<Rightarrow> nat option" where
  "hex_val c =
     (if is_digit c then Some (of_char c - 48)
      else if c \<in> set ''abcdef'' then Some (of_char c - 87)
      else if c \<in> set ''ABCDEF'' then Some (of_char c - 55)
      else None)"

text \<open>
  Modelled from the spec: "basic strings interpret \<^verbatim>\<open>\n \t \" \\ \uXXXX \UXXXXXXXX\<close>
  etc."; an "invalid escape sequence" and an "unterminated string" are parse errors.
  \<open>hex_escape n cs\<close> reads the \<open>n\<close> hexadecimal digits of a \<^verbatim>\<open>\u\<close> or \<^verbatim>\<open>\U\<close> escape;
  a code point that \<^typ>\<open>char\<close> does not have is outside the model.
  \<open>parse_basic acc cs\<close> reads a basic string from behind its opening quote and returns
  it with the text behind the closing quote.
\<close>

definition hex_escape :: "nat \<Rightarrow> string \<Rightarrow> error + char" where
  "hex_escape n cs =
     (if length cs < n \<or> (\<exists>c \<in> set (take n cs). hex_val c = None) then Inl ParseError
      else let v = foldl (\<lambda>a c. 16 * a + the (hex_val c)) 0 (take n cs)
           in if v < 256 then Inr (char_of v) else Inl Unsupported)"

definition simple_escape :: "char \<Rightarrow> char option" where
  "simple_escape c = map_of
     [(CHR ''b'', CHR 0x08), (CHR ''t'', CHR 0x09), (CHR ''n'', CHR 0x0A), (CHR ''f'', CHR 0x0C),
      (CHR ''r'', CHR 0x0D), (CHR 0x22, CHR 0x22), (CHR 0x5C, CHR 0x5C)] c"

fun parse_basic :: "string \<Rightarrow> string \<Rightarrow> error + string \<times> string" where
  "parse_basic acc [] = Inl ParseError"
| "parse_basic acc [c] = (if c = CHR 0x22 then Inr (rev acc, []) else Inl ParseError)"
| "parse_basic acc (c # e # r) =
     (if c = CHR 0x22 then Inr (rev acc, e # r)
      else if c = CHR 0x5C then
        (if e = CHR ''u'' then
           (case hex_escape 4 r of Inl x \<Rightarrow> Inl x | Inr h \<Rightarrow> parse_basic (h # acc) (drop 4 r))
         else if e = CHR ''U'' then
           (case hex_escape 8 r of Inl x \<Rightarrow> Inl x | Inr h \<Rightarrow> parse_basic (h # acc) (drop 8 r))
         else (case simple_escape e of None \<Rightarrow> Inl ParseError | Some h \<Rightarrow> parse_basic (h # acc) r))
      else if is_control c then Inl ParseError
      else parse_basic (c # acc) (e # r))"

text \<open>
  Modelled from the spec: "bare/quoted keys" and dotted key paths. \<open>parse_path n cs\<close>
  reads keys separated by dots; \<open>n\<close> bounds the number of keys, and one more than the
  length of the text is always enough.
\<close>

definition parse_key :: "string \<Rightarrow> error + string \<times> string" where
  "parse_key cs =
     (case cs of
        [] \<Rightarrow> Inl ParseError
      | c # r \<Rightarrow>
          if c = CHR 0x22 then parse_basic [] r
          else if c = CHR 0x27 then Inl Unsupported
          else if is_bare c then Inr (takeWhile is_bare cs, dropWhile is_bare cs)
          else Inl ParseError)"

fun parse_path :: "nat \<Rightarrow> string \<Rightarrow> error + string list \<times> string" where
  "parse_path 0 cs = Inl Unsupported"
| "parse_path (Suc n) cs =
     (case parse_key cs of
        Inl e \<Rightarrow> Inl e
      | Inr (k, r) \<Rightarrow>
          (case skip_ws r of
             c # r' \<Rightarrow>
               if c = CHR ''.'' then
                 (case parse_path n (skip_ws r') of
                    Inl e \<Rightarrow> Inl e
                  | Inr (ks, r'') \<Rightarrow> Inr (k # ks, r''))
               else Inr ([k], r)
           | [] \<Rightarrow> Inr ([k], r)))"

subsection \<open>The tree under construction\<close>

text \<open>
  Modelled from the spec: the Parser's tree while it is built. A \<open>Leaf\<close> is a value
  set by a key/value line; an inline table is such a value, "closed (non-extendable
  after the closing brace)". A \<open>Tbl\<close> is a table that headers and dotted keys may
  enter, with the flag that a header \<^verbatim>\<open>[path]\<close> has defined it; an \<open>Aot\<close> is an
  array of tables, whose entries "accumulate in declaration order under one key".
  \<open>finish\<close> forgets the marks.
\<close>

datatype node =
    Leaf toml_value
  | Tbl bool "(string \<times> node) list"
  | Aot "(string \<times> node) list list"

primrec finish :: "node \<Rightarrow> toml_value" where
  "finish (Leaf v) = v"
| "finish (Tbl d es) = Table (map (map_prod id finish) es)"
| "finish (Aot ts) = Array (map Table (map (map (map_prod id finish)) ts))"

text \<open>
  Modelled from the spec: "dotted key paths create/navigate intermediate tables
  implicitly -- redeclaring an intermediate segment as a non-table is an error".
  \<open>modify_at p f es\<close> walks the path \<open>p\<close> from the table with the entries \<open>es\<close>,
  entering the last table of an array of tables and creating the tables that are not
  there, and applies \<open>f\<close> to the table it arrives at.
\<close>

fun modify_at :: "string list \<Rightarrow> ((string \<times> node) list \<Rightarrow> error + (string \<times> node) list)
    \<Rightarrow> (string \<times> node) list \<Rightarrow> error + (string \<times> node) list" where
  "modify_at [] f es = f es"
| "modify_at (k # ks) f es =
     (case map_of es k of
        None \<Rightarrow>
          (case modify_at ks f [] of
             Inl e \<Rightarrow> Inl e
           | Inr sub \<Rightarrow> Inr (es @ [(k, Tbl False sub)]))
      | Some (Tbl d sub) \<Rightarrow>
          (case modify_at ks f sub of
             Inl e \<Rightarrow> Inl e
           | Inr sub' \<Rightarrow> Inr (AList.update k (Tbl d sub') es))
      | Some (Aot ts) \<Rightarrow>
          (if ts = [] then Inl ParseError
           else case modify_at ks f (last ts) of
                  Inl e \<Rightarrow> Inl e
                | Inr sub' \<Rightarrow> Inr (AList.update k (Aot (butlast ts @ [sub'])) es))
      | Some (Leaf v) \<Rightarrow> Inl ParseError)"

text \<open>
  Modelled from the spec: "Key uniqueness is checked at the point of insertion into
  the current table scope; violation raises ParseError immediately". \<open>insert_new\<close> is
  the insertion of a key/value line; \<open>define_table\<close> is a header \<^verbatim>\<open>[path]\<close> arriving
  at its last key, where a table that a header has defined already, an array of tables
  and a value are errors ("duplicate key", "inconsistent array-of-tables redeclaration
  as a plain table"); \<open>append_table\<close> is a header \<^verbatim>\<open>[[path]]\<close>, which starts the array
  or adds an empty table to it.
\<close>

definition insert_new :: "string \<Rightarrow> node \<Rightarrow> (string \<times> node) list \<Rightarrow> error + (string \<times> node) list" where
  "insert_new k n es = (if map_of es k \<noteq> None then Inl ParseError else Inr (es @ [(k, n)]))"

definition define_table :: "string \<Rightarrow> (string \<times> node) list \<Rightarrow> error + (string \<times> node) list" where
  "define_table k es =
     (case map_of es k of
        None \<Rightarrow> Inr (es @ [(k, Tbl True [])])
      | Some (Tbl False sub) \<Rightarrow> Inr (AList.update k (Tbl True sub) es)
      | Some _ \<Rightarrow> Inl ParseError)"

definition append_table :: "string \<Rightarrow> (string \<times> node) list \<Rightarrow> error + (string \<times> node) list" where
  "append_table k es =
     (case map_of es k of
        None \<Rightarrow> Inr (es @ [(k, Aot [[]])])
      | Some (Aot ts) \<Rightarrow> Inr (AList.update k (Aot (ts @ [[]])) es)
      | Some _ \<Rightarrow> Inl ParseError)"

text \<open>Modelled from the spec: a key/value line with the key path \<open>p\<close>, in the table the
  cursor names. A path has at least one key.\<close>

definition assign :: "string list \<Rightarrow> string list \<Rightarrow> toml_value \<Rightarrow> (string \<times> node) list
    \<Rightarrow> error + (string \<times> node) list" where
  "assign cur p v es =
     (if p = [] then Inl ParseError
      else modify_at (cur @ butlast p) (insert_new (last p) (Leaf v)) es)"

subsection \<open>Values\<close>

text \<open>
  Modelled from the spec: the values of the Lexer and Parser, in the fragment: a
  decimal integer of 64 bits, a basic string, \<^verbatim>\<open>true\<close> and \<^verbatim>\<open>false\<close>, an array
  (a trailing comma is permitted) and an inline table, whose keys are inserted like
  those of key/value lines. The first argument of \<open>parse_val\<close>, \<open>parse_elems\<close> and
  \<open>parse_pairs\<close> bounds the nesting and the number of elements; the length of the text
  is always enough.
\<close>

definition at_delim :: "string \<Rightarrow> bool" where
  "at_delim cs = (case cs of [] \<Rightarrow> True | c # r \<Rightarrow> c \<in> set '' ,]}#'' \<or> c = CHR 0x09 \<or> c = CHR 0x0D)"

definition parse_integer :: "string \<Rightarrow> error + toml_value \<times> string" where
  "parse_integer cs =
     (let neg = (cs \<noteq> [] \<and> hd cs = CHR ''-'');
          body = (if cs \<noteq> [] \<and> (hd cs = CHR ''-'' \<or> hd cs = CHR ''+'') then tl cs else cs);
          ds = takeWhile is_digit body; r = dropWhile is_digit body;
          n = int (nat_of_digits ds); i = (if neg then - n else n)
      in if ds = [] then Inl ParseError
         else if \<not> at_delim r \<or> (length ds > 1 \<and> hd ds = CHR ''0'') then Inl Unsupported
         else if i < - (2 ^ 63) \<or> 2 ^ 63 \<le> i then Inl ParseError
         else Inr (Integer i, r))"

fun build_inline :: "(string list \<times> toml_value) list \<Rightarrow> (string \<times> node) list \<Rightarrow> error + (string \<times> node) list" where
  "build_inline [] es = Inr es"
| "build_inline ((p, v) # ps) es =
     (case assign [] p v es of Inl e \<Rightarrow> Inl e | Inr es' \<Rightarrow> build_inline ps es')"

fun parse_val :: "nat \<Rightarrow> string \<Rightarrow> error + toml_value \<times> string"
  and parse_elems :: "nat \<Rightarrow> string \<Rightarrow> error + toml_value list \<times> string"
  and parse_pairs :: "nat \<Rightarrow> string \<Rightarrow> error + (string list \<times> toml_value) list \<times> string"
where
  "parse_val 0 cs = Inl Unsupported"
| "parse_val (Suc n) cs =
     (case cs of
        [] \<Rightarrow> Inl ParseError
      | c # r \<Rightarrow>
          if c = CHR 0x22 then
            (if prefix [CHR 0x22, CHR 0x22] r then Inl Unsupported
             else case parse_basic [] r of Inl e \<Rightarrow> Inl e | Inr (s, r') \<Rightarrow> Inr (String s, r'))
          else if c = CHR ''['' then
            (case parse_elems n (skip_ws r) of Inl e \<Rightarrow> Inl e | Inr (vs, r') \<Rightarrow> Inr (Array vs, r'))
          else if c = CHR ''{'' then
            (case parse_pairs n (skip_ws r) of
               Inl e \<Rightarrow> Inl e
             | Inr (ps, r') \<Rightarrow>
                 (case build_inline ps [] of
                    Inl e \<Rightarrow> Inl e
                  | Inr es \<Rightarrow> Inr (finish (Tbl True es), r')))
          else if prefix ''true'' cs \<and> at_delim (drop 4 cs) then Inr (Boolean True, drop 4 cs)
          else if prefix ''false'' cs \<and> at_delim (drop 5 cs) then Inr (Boolean False, drop 5 cs)
          else if is_digit c \<or> c = CHR ''-'' \<or> c = CHR ''+'' then parse_integer cs
          else Inl Unsupported)"
| "parse_elems 0 cs = Inl Unsupported"
| "parse_elems (Suc n) cs =
     (case cs of
        [] \<Rightarrow> Inl Unsupported
      | c # r \<Rightarrow>
          if c = CHR '']'' then Inr ([], r)
          else
            (case parse_val n cs of
               Inl e \<Rightarrow> Inl e
             | Inr (v, r') \<Rightarrow>
                 (case skip_ws r' of
                    [] \<Rightarrow> Inl Unsupported
                  | d # r'' \<Rightarrow>
                      if d = CHR '']'' then Inr ([v], r'')
                      else if d = CHR '','' then
                        (case parse_elems n (skip_ws r'') of
                           Inl e \<Rightarrow> Inl e
                         | Inr (vs, r3) \<Rightarrow> Inr (v # vs, r3))
                      else Inl ParseError)))"
| "parse_pairs 0 cs = Inl Unsupported"
| "parse_pairs (Suc n) cs =
     (case cs of
        [] \<Rightarrow> Inl ParseError
      | c # r \<Rightarrow>
          if c = CHR ''}'' then Inr ([], r)
          else
            (case parse_path (Suc (length cs)) cs of
               Inl e \<Rightarrow> Inl e
             | Inr (p, r1) \<Rightarrow>
                 (case skip_ws r1 of
                    [] \<Rightarrow> Inl ParseError
                  | q # r2 \<Rightarrow>
                      if q \<noteq> CHR ''='' then Inl ParseError
                      else
                        (case parse_val n (skip_ws r2) of
                           Inl e \<Rightarrow> Inl e
                         | Inr (v, r3) \<Rightarrow>
                             (case skip_ws r3 of
                                [] \<Rightarrow> Inl ParseError
                              | d # r4 \<Rightarrow>
                                  if d = CHR ''}'' then Inr ([(p, v)], r4)
                                  else if d = CHR '','' then
                                    (case parse_pairs n (skip_ws r4) of
                                       Inl e \<Rightarrow> Inl e
                                     | Inr (ps, r5) \<Rightarrow> Inr ((p, v) # ps, r5))
                                  else Inl ParseError)))))"

subsection \<open>Statements and documents\<close>

text \<open>
  Modelled from the spec: the statements that the lines of a document are, "newlines
  (significant as statement separators)", and the Parser's "cursor over top-level
  current table context, updated by \<^verbatim>\<open>[table.path]\<close> and \<^verbatim>\<open>[[array.table.path]]\<close>
  headers". A "malformed table header" is a parse error. The root of the result "is
  always a Table, even for an empty document".
\<close>

datatype statement =
    KeyVal "string list" toml_value
  | Header "string list"
  | ArrayHeader "string list"

definition line_end :: "string \<Rightarrow> bool" where
  "line_end cs = (case skip_ws cs of [] \<Rightarrow> True | c # r \<Rightarrow> c = CHR ''#'' \<or> (c = CHR 0x0D \<and> r = []))"

definition parse_header :: "string \<Rightarrow> string \<Rightarrow> (string list \<Rightarrow> statement) \<Rightarrow> error + statement option" where
  "parse_header cs closing mk =
     (case parse_path (Suc (length cs)) (skip_ws cs) of
        Inl e \<Rightarrow> Inl e
      | Inr (p, r) \<Rightarrow>
          if prefix closing (skip_ws r) \<and> line_end (drop (length closing) (skip_ws r))
          then Inr (Some (mk p)) else Inl ParseError)"

definition parse_line :: "string \<Rightarrow> error + statement option" where
  "parse_line l =
     (let cs = skip_ws l in
      if line_end cs then Inr None
      else if prefix ''[['' cs then parse_header (drop 2 cs) '']]'' ArrayHeader
      else if prefix ''['' cs then parse_header (drop 1 cs) '']'' Header
      else
        (case parse_path (Suc (length cs)) cs of
           Inl e \<Rightarrow> Inl e
         | Inr (p, r) \<Rightarrow>
             (case skip_ws r of
                [] \<Rightarrow> Inl ParseError
              | q # r' \<Rightarrow>
                  if q \<noteq> CHR ''='' then Inl ParseError
                  else
                    (case parse_val (Suc (length r')) (skip_ws r') of
                       Inl e \<Rightarrow> Inl e
                     | Inr (v, r'') \<Rightarrow>
                         if line_end r'' then Inr (Some (KeyVal p v)) else Inl ParseError))))"

fun lines_from :: "string \<Rightarrow> string \<Rightarrow> string list" where
  "lines_from acc [] = [rev acc]"
| "lines_from acc (c # cs) = (if c = CHR 0x0A then rev acc # lines_from [] cs else lines_from (c # acc) cs)"

fun tokenize :: "string list \<Rightarrow> error + statement list" where
  "tokenize [] = Inr []"
| "tokenize (l # ls) =
     (case parse_line l of
        Inl e \<Rightarrow> Inl e
      | Inr None \<Rightarrow> tokenize ls
      | Inr (Some st) \<Rightarrow> (case tokenize ls of Inl e \<Rightarrow> Inl e | Inr sts \<Rightarrow> Inr (st # sts)))"

record parse_state =
  root :: "(string \<times> node) list"
  cursor :: "string list"

definition execute :: "parse_state \<Rightarrow> statement \<Rightarrow> error + parse_state" where
  "execute st s =
     (case s of
        KeyVal p v \<Rightarrow>
          (case assign (cursor st) p v (root st) of
             Inl e \<Rightarrow> Inl e
           | Inr r \<Rightarrow> Inr (st\<lparr>root := r\<rparr>))
      | Header p \<Rightarrow>
          (if p = [] then Inl ParseError
           else case modify_at (butlast p) (define_table (last p)) (root st) of
                  Inl e \<Rightarrow> Inl e
                | Inr r \<Rightarrow> Inr \<lparr>root = r, cursor = p\<rparr>)
      | ArrayHeader p \<Rightarrow>
          (if p = [] then Inl ParseError
           else case modify_at (butlast p) (append_table (last p)) (root st) of
                  Inl e \<Rightarrow> Inl e
                | Inr r \<Rightarrow> Inr \<lparr>root = r, cursor = p\<rparr>))"

fun run :: "parse_state \<Rightarrow> statement list \<Rightarrow> error + parse_state" where
  "run st [] = Inr st"
| "run st (s # ss) = (case execute st s of Inl e \<Rightarrow> Inl e | Inr st' \<Rightarrow> run st' ss)"

definition parse_statements :: "statement list \<Rightarrow> error + toml_value" where
  "parse_statements ss =
     (case run \<lparr>root = [], cursor = []\<rparr> ss of
        Inl e \<Rightarrow> Inl e
      | Inr st \<Rightarrow> Inr (finish (Tbl True (root st))))"

definition parse_toml :: "string \<Rightarrow> error + toml_value" where
  "parse_toml source =
     (case tokenize (lines_from [] source) of
        Inl e \<Rightarrow> Inl e
      | Inr ss \<Rightarrow> parse_statements ss)"

subsection \<open>The serializer\<close>

text \<open>
  Modelled from the spec: the Serializer, "one statement per line", with nested
  tables rendered inline; "string emission escapes control characters and the string's
  own delimiter", and a null marker that reaches the serializer is a
  \<open>SerializeError\<close>, as is an integer outside 64 bits. In pretty mode a blank line
  stands before every top-level entry that is a table. "Arrays and tables preserve
  input order exactly."
\<close>

definition hex_char :: "nat \<Rightarrow> char" where
  "hex_char d = ''0123456789ABCDEF'' ! d"

definition escape_char :: "char \<Rightarrow> string" where
  "escape_char c =
     (if c = CHR 0x22 then [CHR 0x5C, CHR 0x22]
      else if c = CHR 0x5C then [CHR 0x5C, CHR 0x5C]
      else if c = CHR 0x08 then [CHR 0x5C, CHR ''b'']
      else if c = CHR 0x09 then [CHR 0x5C, CHR ''t'']
      else if c = CHR 0x0A then [CHR 0x5C, CHR ''n'']
      else if c = CHR 0x0C then [CHR 0x5C, CHR ''f'']
      else if c = CHR 0x0D then [CHR 0x5C, CHR ''r'']
      else if is_control c then
        [CHR 0x5C, CHR ''u'', CHR ''0'', CHR ''0'', hex_char (of_char c div 16), hex_char (of_char c mod 16)]
      else [c])"

definition render_string :: "string \<Rightarrow> string" where
  "render_string s = [CHR 0x22] @ concat (map escape_char s) @ [CHR 0x22]"

definition render_key :: "string \<Rightarrow> string" where
  "render_key k = (if k \<noteq> [] \<and> (\<forall>c \<in> set k. is_bare c) then k else render_string k)"

definition str_int :: "int \<Rightarrow> string" where
  "str_int i = (if i < 0 then CHR ''-'' # str_nat (nat (- i)) else str_nat (nat i))"

fun join :: "string \<Rightarrow> string list \<Rightarrow> string" where
  "join sep [] = []"
| "join sep [x] = x"
| "join sep (x # y # xs) = x @ sep @ join sep (y # xs)"

fun render :: "toml_value \<Rightarrow> error + string"
  and render_elems :: "toml_value list \<Rightarrow> error + string list"
  and render_entries :: "(string \<times> toml_value) list \<Rightarrow> error + string list"
where
  "render (String s) = Inr (render_string s)"
| "render (Integer i) = (if i < - (2 ^ 63) \<or> 2 ^ 63 \<le> i then Inl SerializeError else Inr (str_int i))"
| "render (Boolean b) = Inr (if b then ''true'' else ''false'')"
| "render (Float x) = Inl Unsupported"
| "render (DateTime k x) = Inl Unsupported"
| "render Null = Inl SerializeError"
| "render (Array vs) =
     (case render_elems vs of Inl e \<Rightarrow> Inl e | Inr xs \<Rightarrow> Inr (''['' @ join '', '' xs @ '']''))"
| "render (Table kvs) =
     (case render_entries kvs of Inl e \<Rightarrow> Inl e | Inr xs \<Rightarrow> Inr (''{'' @ join '', '' xs @ ''}''))"
| "render_elems [] = Inr []"
| "render_elems (v # vs) =
     (case render v of
        Inl e \<Rightarrow> Inl e
      | Inr x \<Rightarrow> (case render_elems vs of Inl e \<Rightarrow> Inl e | Inr xs \<Rightarrow> Inr (x # xs)))"
| "render_entries [] = Inr []"
| "render_entries ((k, v) # kvs) =
     (case render v of
        Inl e \<Rightarrow> Inl e
      | Inr x \<Rightarrow>
          (case render_entries kvs of
             Inl e \<Rightarrow> Inl e
           | Inr xs \<Rightarrow> Inr ((render_key k @ '' = '' @ x) # xs)))"

definition is_table :: "toml_value \<Rightarrow> bool" where
  "is_table v = (case v of Table kvs \<Rightarrow> True | _ \<Rightarrow> False)"

fun render_lines :: "bool \<Rightarrow> (string \<times> toml_value) list \<Rightarrow> error + string" where
  "render_lines pretty [] = Inr []"
| "render_lines pretty ((k, v) # kvs) =
     (case render v of
        Inl e \<Rightarrow> Inl e
      | Inr x \<Rightarrow>
          (case render_lines pretty kvs of
             Inl e \<Rightarrow> Inl e
           | Inr rest \<Rightarrow>
               Inr ((if pretty \<and> is_table v then [CHR 0x0A] else [])
                    @ render_key k @ '' = '' @ x @ [CHR 0x0A] @ rest)))"

definition serialize_toml :: "toml_value \<Rightarrow> bool \<Rightarrow> error + string" where
  "serialize_toml v pretty =
     (case v of Table kvs \<Rightarrow> render_lines pretty kvs | _ \<Rightarrow> Inl SerializeError)"

subsection \<open>Two encodings\<close>

text \<open>
  UTF-8 and Latin-1 on the code points below 256, for the examples: UTF-8 writes a
  code point from 128 on as two bytes. \<open>std_codecs\<close> is a registry that knows these
  two.
\<close>

definition utf8_char :: "char \<Rightarrow> byte list" where
  "utf8_char c =
     (let n = of_char c :: nat in
      if n < 128 then [of_nat n] else [of_nat (192 + n div 64), of_nat (128 + n mod 64)])"

fun utf8_decode :: "byte list \<Rightarrow> string option" where
  "utf8_decode [] = Some []"
| "utf8_decode [b] = (if unat b < 128 then Some [char_of (unat b)] else None)"
| "utf8_decode (b # c # bs) =
     (if unat b < 128 then map_option ((#) (char_of (unat b))) (utf8_decode (c # bs))
      else if (unat b = 194 \<or> unat b = 195) \<and> 128 \<le> unat c \<and> unat c < 192
      then map_option ((#) (char_of ((unat b - 192) * 64 + (unat c - 128)))) (utf8_decode bs)
      else None)"

definition utf8 :: codec where
  "utf8 = \<lparr>encode = (\<lambda>s. Some (concat (map utf8_char s))), decode = utf8_decode\<rparr>"

definition latin1 :: codec where
  "latin1 = \<lparr>encode = (\<lambda>s. Some (map (\<lambda>c. of_nat (of_char c)) s)),
             decode = (\<lambda>bs. Some (map (\<lambda>b. char_of (unat b)) bs))\<rparr>"

definition std_codecs :: "string \<Rightarrow> codec option" where
  "std_codecs name =
     (if name = ''utf-8'' then Some utf8 else if name = ''latin-1'' then Some latin1 else None)"

text \<open>The dependencies with the codec of this section and the two encodings.\<close>

definition model_deps :: deps where
  "model_deps = spec_deps parse_toml serialize_toml std_codecs"

section \<open>Predicates on values\<close>

text \<open>
  \<open>plain v\<close>: \<open>v\<close> is built from plain dicts, lists and leaves, with no
  \<^verbatim>\<open>TomlDict\<close> at any depth. \<open>wrapped v\<close>: every dict reached from \<open>v\<close>
  through dict values and list elements is a \<^verbatim>\<open>TomlDict\<close>. \<open>toml_ok v\<close>: every
  \<^verbatim>\<open>TomlDict\<close> that stands in \<open>v\<close>, below plain dicts and lists, is wrapped; this is
  what values handed to an insertion satisfy when every \<^verbatim>\<open>TomlDict\<close> in existence does.
  \<open>reached v ks\<close> follows the keys \<open>ks\<close> from \<open>v\<close> and is defined when every key is
  a key of a dict along the way.
\<close>

fun plain :: "pyval \<Rightarrow> bool" where
  "plain (PList vs) = (\<forall>v \<in> set vs. plain v)"
| "plain (PDict kvs) = (\<forall>p \<in> set kvs. plain (snd p))"
| "plain (TomlDict kvs) = False"
| "plain v = True"

fun wrapped :: "pyval \<Rightarrow> bool" where
  "wrapped (PList vs) = (\<forall>v \<in> set vs. wrapped v)"
| "wrapped (PDict kvs) = False"
| "wrapped (TomlDict kvs) = (\<forall>p \<in> set kvs. wrapped (snd p))"
| "wrapped v = True"

fun toml_ok :: "pyval \<Rightarrow> bool" where
  "toml_ok (PList vs) = (\<forall>v \<in> set vs. toml_ok v)"
| "toml_ok (PDict kvs) = (\<forall>p \<in> set kvs. toml_ok (snd p))"
| "toml_ok (TomlDict kvs) = wrapped (TomlDict kvs)"
| "toml_ok v = True"

fun reached :: "pyval \<Rightarrow> string list \<Rightarrow> pyval option" where
  "reached v [] = Some v"
| "reached v (k # ks) =
     (case dict_items v of
        None \<Rightarrow> None
      | Some kvs \<Rightarrow> (case map_of kvs k of None \<Rightarrow> None | Some v' \<Rightarrow> reached v' ks))"

text \<open>\<open>sentinel_free s t\<close>: no string of the tree \<open>t\<close> is the sentinel \<open>s\<close>.\<close>

fun sentinel_free :: "string \<Rightarrow> toml_value \<Rightarrow> bool" where
  "sentinel_free s (String x) = (x \<noteq> s)"
| "sentinel_free s (Array vs) = (\<forall>v \<in> set vs. sentinel_free s v)"
| "sentinel_free s (Table kvs) = (\<forall>p \<in> set kvs. sentinel_free s (snd p))"
| "sentinel_free s v = True"

section \<open>Lemmas\<close>

lemma unwrap_wrap: "plain v \<Longrightarrow> unwrap (wrap v) = v"
proof (induction v)
  case (PList vs)
  then show ?case by (simp add: map_idI)
next
  case (PDict kvs)
  have "map (map_prod id unwrap \<circ> map_prod id wrap) kvs = kvs"
  proof (rule map_idI)
    fix p assume p: "p \<in> set kvs"
    obtain k v where kv: "p = (k, v)" by (cases p)
    with p PDict.prems have "plain v" by auto
    with PDict.IH p kv have "unwrap (wrap v) = v" by auto
    with kv show "(map_prod id unwrap \<circ> map_prod id wrap) p = p" by simp
  qed
  then show ?case by simp
qed simp_all

lemma wrapped_wrap: "toml_ok v \<Longrightarrow> wrapped (wrap v)"
  by (induction v) (auto)

lemma plain_toml_ok: "plain v \<Longrightarrow> toml_ok v"
  by (induction v) auto

lemma plain_unwrap: "wrapped v \<Longrightarrow> plain (unwrap v)"
  by (induction v) auto


lemma wrapped_update:
  "\<forall>p \<in> set kvs. wrapped (snd p) \<Longrightarrow> wrapped v \<Longrightarrow> \<forall>p \<in> set (AList.update k v kvs). wrapped (snd p)"
  by (induction kvs) auto

lemma map_of_wrapped: "\<forall>p \<in> set kvs. wrapped (snd p) \<Longrightarrow> map_of kvs k = Some v \<Longrightarrow> wrapped v"
  by (metis map_of_SomeD snd_conv)

lemma walk_reached: "walk v ks d = (case reached v ks of None \<Rightarrow> d | Some r \<Rightarrow> r)"
  by (induction v ks d rule: walk.induct) (auto split: option.splits)

lemma split_from_empty: "split_from sep [] [] = [[]]"
  by simp

lemma flatten_elems_fold:
  "flatten_elems sep xs cur i res =
     fold (\<lambda>(j, x). flatten_rec sep x (index_key cur j)) (enumerate i xs) res"
  by (induction xs arbitrary: i res) auto

lemma flatten_items_append:
  "flatten_items sep (pre @ post) cur res = flatten_items sep post cur (flatten_items sep pre cur res)"
  by (induction pre arbitrary: res) auto

lemma wrapped_set_path:
  "wrapped (TomlDict kvs) \<Longrightarrow> toml_ok v \<Longrightarrow> wrapped (TomlDict (set_path True kvs ks v))"
proof (induction ks arbitrary: kvs)
  case Nil
  then show ?case by simp
next
  case (Cons k ks)
  note kvs = Cons.prems(1)
  show ?case
  proof (cases ks)
    case Nil
    have "wrapped (wrap v)" using Cons.prems(2) by (rule wrapped_wrap)
    with kvs have "\<forall>p \<in> set (AList.update k (wrap v) kvs). wrapped (snd p)"
      by (simp add: wrapped_update)
    with Nil show ?thesis by simp
  next
    case (Cons k' ks')
    have step: "wrapped (TomlDict (AList.update k (TomlDict (set_path True sub ks v)) kvs))"
      if "wrapped (TomlDict sub)" for sub
    proof -
      have "wrapped (TomlDict (set_path True sub ks v))"
        using that Cons.prems(2) by (rule Cons.IH)
      with kvs show ?thesis
        using wrapped_update[of kvs "TomlDict (set_path True sub ks v)" k] by simp
    qed
    show ?thesis
    proof (cases "map_of kvs k")
      case None
      have "wrapped (TomlDict [])" by simp
      from step[OF this] None Cons show ?thesis by simp
    next
      case (Some c)
      with kvs have c: "wrapped c" using map_of_wrapped[of kvs k c] by simp
      show ?thesis
      proof (cases c)
        case (TomlDict sub)
        with c have "wrapped (TomlDict sub)" by simp
        from step[OF this] Some TomlDict Cons show ?thesis by simp
      next
        case (PDict sub)
        with c show ?thesis by simp
      next
        case PNone
        have "wrapped (TomlDict [])" by simp
        from step[OF this] Some PNone Cons show ?thesis by simp
      next
        case (PBool b)
        have "wrapped (TomlDict [])" by simp
        from step[OF this] Some PBool Cons show ?thesis by simp
      next
        case (PInt n)
        have "wrapped (TomlDict [])" by simp
        from step[OF this] Some PInt Cons show ?thesis by simp
      next
        case (PFloat x)
        have "wrapped (TomlDict [])" by simp
        from step[OF this] Some PFloat Cons show ?thesis by simp
      next
        case (PStr x)
        have "wrapped (TomlDict [])" by simp
        from step[OF this] Some PStr Cons show ?thesis by simp
      next
        case (PList x)
        have "wrapped (TomlDict [])" by simp
        from step[OF this] Some PList Cons show ?thesis by simp
      qed
    qed
  qed
qed

lemma sentinel_roundtrip: "sentinel_free s t \<Longrightarrow> sentinel_to_null s (null_to_sentinel s t) = t"
proof (induction t)
  case (Array vs)
  then show ?case by (simp add: map_idI)
next
  case (Table kvs)
  have "map (map_prod id (sentinel_to_null s) \<circ> map_prod id (null_to_sentinel s)) kvs = kvs"
  proof (rule map_idI)
    fix p assume p: "p \<in> set kvs"
    obtain k v where kv: "p = (k, v)" by (cases p)
    with p Table.prems have "sentinel_free s v" by auto
    with Table.IH p kv have "sentinel_to_null s (null_to_sentinel s v) = v" by auto
    with kv show "(map_prod id (sentinel_to_null s) \<circ> map_prod id (null_to_sentinel s)) p = p"
      by simp
  qed
  then show ?case by simp
qed simp_all

section \<open>Claims about TomlDict\<close>

text \<open>
  C10. For every plain dict \<open>d\<close> built from dicts, lists and leaves,
  \<^verbatim>\<open>TomlDict(d).to_dict()\<close> is \<open>d\<close> again, and it holds no \<^verbatim>\<open>TomlDict\<close> at any
  depth: \<^verbatim>\<open>to_dict\<close> inverts the wrapping done at construction.
\<close>

theorem to_dict_inverts_init:
  assumes "plain (PDict d)"
  shows "to_dict (TomlDict_init d) = PDict d \<and> plain (to_dict (TomlDict_init d))"
proof -
  have "unwrap (wrap (PDict d)) = PDict d"
    using assms by (rule unwrap_wrap)
  then have "to_dict (TomlDict_init d) = PDict d"
    by (simp add: to_dict_def TomlDict_init_def)
  with assms show ?thesis by simp
qed

text \<open>The theorem at a nested dict with a list of tables.\<close>

theorem to_dict_inverts_init_witness:
  "plain (PDict [(''db'', PDict [(''port'', PInt 5432), (''hosts'', PList [PDict [(''name'', PStr ''a'')]])])])
   \<and> to_dict (TomlDict_init [(''db'', PDict [(''port'', PInt 5432), (''hosts'', PList [PDict [(''name'', PStr ''a'')]])])])
       = PDict [(''db'', PDict [(''port'', PInt 5432), (''hosts'', PList [PDict [(''name'', PStr ''a'')]])])]"
proof -
  have p: "plain (PDict [(''db'', PDict [(''port'', PInt 5432), (''hosts'', PList [PDict [(''name'', PStr ''a'')]])])])"
    by simp
  from to_dict_inverts_init[OF p] p show ?thesis by blast
qed

text \<open>
  C9, as amended. With a separator that is not empty (the default is \<^verbatim>\<open>"."\<close>),
  \<^verbatim>\<open>get_nested\<close> never raises: the path has a key list, and the result is the value
  reached when every key is a key of a dict along the way and the default otherwise.
  For the empty key sequence it is the \<^verbatim>\<open>TomlDict\<close> itself. The empty string is not
  an empty path: it splits into the one key \<^verbatim>\<open>""\<close>, which is looked up like any
  other key.
\<close>

theorem get_nested_total:
  assumes "sep \<noteq> []"
  shows "(\<exists>ks. path_keys p sep = Inr ks \<and>
            get_nested self p dflt sep =
              Inr (case reached (TomlDict (items self)) ks of Some v \<Rightarrow> v | None \<Rightarrow> dflt))
         \<and> get_nested self (PathKeys []) dflt sep = Inr (TomlDict (items self))
         \<and> get_nested self (PathStr []) dflt sep =
              Inr (case map_of (items self) [] of Some v \<Rightarrow> v | None \<Rightarrow> dflt)"
proof -
  obtain ks where ks: "path_keys p sep = Inr ks"
    using assms by (cases p) (simp_all add: path_keys_def split_def)
  then have "get_nested self p dflt sep =
      Inr (case reached (TomlDict (items self)) ks of Some v \<Rightarrow> v | None \<Rightarrow> dflt)"
    by (simp add: get_nested_def walk_reached)
  moreover have "get_nested self (PathKeys []) dflt sep = Inr (TomlDict (items self))"
    by (simp add: get_nested_def path_keys_def)
  moreover have "get_nested self (PathStr []) dflt sep =
      Inr (case map_of (items self) [] of Some v \<Rightarrow> v | None \<Rightarrow> dflt)"
    using assms by (simp add: get_nested_def path_keys_def split_def split: option.splits)
  ultimately show ?thesis using ks by blast
qed

text \<open>The theorem at the default separator, for a path that is there and one that is
  not.\<close>

theorem get_nested_total_witness:
  "''.'' \<noteq> []
   \<and> get_nested (TomlDict_init [(''a'', PDict [(''b'', PInt 1)])]) (PathStr ''a.b'') PNone ''.'' = Inr (PInt 1)
   \<and> get_nested (TomlDict_init [(''a'', PDict [(''b'', PInt 1)])]) (PathStr ''a.x.y'') (PStr ''d'') ''.'' = Inr (PStr ''d'')"
proof -
  have s: "''.'' \<noteq> []" by simp
  have k1: "path_keys (PathStr ''a.b'') ''.'' = Inr [''a'', ''b'']"
    by (simp add: path_keys_def split_def)
  have k2: "path_keys (PathStr ''a.x.y'') ''.'' = Inr [''a'', ''x'', ''y'']"
    by (simp add: path_keys_def split_def)
  from get_nested_total[OF s, of "PathStr ''a.b''" "TomlDict_init [(''a'', PDict [(''b'', PInt 1)])]" PNone] k1
  have 1: "get_nested (TomlDict_init [(''a'', PDict [(''b'', PInt 1)])]) (PathStr ''a.b'') PNone ''.'' = Inr (PInt 1)"
    by (auto simp: TomlDict_init_def)
  from get_nested_total[OF s, of "PathStr ''a.x.y''" "TomlDict_init [(''a'', PDict [(''b'', PInt 1)])]" "PStr ''d''"] k2
  have 2: "get_nested (TomlDict_init [(''a'', PDict [(''b'', PInt 1)])]) (PathStr ''a.x.y'') (PStr ''d'') ''.'' = Inr (PStr ''d'')"
    by (auto simp: TomlDict_init_def)
  from s 1 2 show ?thesis by blast
qed

text \<open>
  C9 as stated fails for the empty string path: \<^verbatim>\<open>get_nested("")\<close> on
  \<^verbatim>\<open>TomlDict({"a": 1})\<close> returns the default, not the \<^verbatim>\<open>TomlDict\<close>.
\<close>

theorem get_nested_empty_string_counterexample:
  "get_nested (TomlDict_init [(''a'', PInt 1)]) (PathStr '''') PNone ''.'' = Inr PNone
   \<and> get_nested (TomlDict_init [(''a'', PInt 1)]) (PathStr '''') PNone ''.''
       \<noteq> Inr (TomlDict (items (TomlDict_init [(''a'', PInt 1)])))"
  by (simp add: get_nested_def path_keys_def split_def TomlDict_init_def)

text \<open>
  C7. For a \<^verbatim>\<open>TomlDict\<close> that holds, under a key \<open>k\<close>, a list that is not empty and
  whose elements are tables, \<^verbatim>\<open>flatten\<close> does not store the list: between the entries
  of the items before \<open>k\<close> and those of the items after it, it flattens each element
  \<open>x\<close> of the list, at its index \<open>i\<close>, under the list's key with \<^verbatim>\<open>[i]\<close> appended.
\<close>

theorem flatten_list_of_tables:
  assumes "elems \<noteq> []" and "\<forall>x \<in> set elems. is_dict x"
  shows "flatten \<lparr>items = pre @ (k, PList elems) # post, attrs = a\<rparr> sep parent =
         flatten_items sep post parent
           (fold (\<lambda>(i, x). flatten_rec sep x (new_key parent sep k @ ''['' @ str_nat i @ '']''))
              (enumerate 0 elems) (flatten_items sep pre parent []))"
proof -
  obtain x xs where elems: "elems = x # xs"
    using assms(1) by (cases elems) auto
  with assms(2) have "is_dict x" by simp
  then have "flatten_rec sep (PList elems) c res = flatten_elems sep elems c 0 res" for c res
    using elems by simp
  then have "flatten_rec sep (PList elems) c res =
      fold (\<lambda>(i, x). flatten_rec sep x (c @ ''['' @ str_nat i @ '']'')) (enumerate 0 elems) res" for c res
    by (simp add: flatten_elems_fold index_key_def)
  then show ?thesis
    by (simp add: flatten_def flatten_items_append)
qed

text \<open>The theorem at a document with two servers: the keys are \<^verbatim>\<open>servers[0].host\<close>
  and \<^verbatim>\<open>servers[1].host\<close>.\<close>

theorem flatten_list_of_tables_witness:
  "[PDict [(''host'', PStr ''a'')], PDict [(''host'', PStr ''b'')]] \<noteq> []
   \<and> flatten \<lparr>items = [(''name'', PStr ''n''),
                         (''servers'', PList [PDict [(''host'', PStr ''a'')], PDict [(''host'', PStr ''b'')]])],
               attrs = []\<rparr> ''.'' ''''
       = [(''name'', PStr ''n''), (''servers[0].host'', PStr ''a''), (''servers[1].host'', PStr ''b'')]"
proof -
  have ne: "[PDict [(''host'', PStr ''a'')], PDict [(''host'', PStr ''b'')]] \<noteq> []"
    by simp
  have tables: "\<forall>x \<in> set [PDict [(''host'', PStr ''a'')], PDict [(''host'', PStr ''b'')]]. is_dict x"
    by (simp add: is_dict_def)
  have "flatten \<lparr>items = [(''name'', PStr ''n'')] @
                    (''servers'', PList [PDict [(''host'', PStr ''a'')], PDict [(''host'', PStr ''b'')]]) # [],
               attrs = []\<rparr> ''.'' ''''
       = [(''name'', PStr ''n''), (''servers[0].host'', PStr ''a''), (''servers[1].host'', PStr ''b'')]"
    unfolding flatten_list_of_tables[OF ne tables]
    by (simp add: new_key_def enumerate_eq_zip upt_rec str_nat.simps digit_char_def)
  with ne show ?thesis by simp
qed

text \<open>
  C8, as amended. Let every dict reachable from the items of a \<^verbatim>\<open>TomlDict\<close> through
  dict values and list elements be a \<^verbatim>\<open>TomlDict\<close>, and let the values handed in hold
  no \<^verbatim>\<open>TomlDict\<close> that breaks this. Then the same is true of a newly constructed
  \<^verbatim>\<open>TomlDict\<close>, and after \<^verbatim>\<open>__setitem__\<close>, after \<^verbatim>\<open>__setattr__\<close> with a name that
  does not start with an underscore, and after a \<^verbatim>\<open>set_nested\<close> that returns.
  \<^verbatim>\<open>__setattr__\<close> with a name that starts with an underscore leaves the items as
  they are: the value becomes an attribute of the object and is not wrapped.
\<close>

theorem insertions_keep_wrapped:
  assumes "wrapped (TomlDict (items self))" and "toml_ok v" and "\<forall>p \<in> set d. toml_ok (snd p)"
  shows "wrapped (TomlDict (items (TomlDict_init d)))
       \<and> wrapped (TomlDict (setitem (items self) k v))
       \<and> (\<not> prefix ''_'' k \<longrightarrow> wrapped (TomlDict (items (setattr self k v))))
       \<and> (prefix ''_'' k \<longrightarrow> items (setattr self k v) = items self)
       \<and> (\<forall>self'. set_nested self p v sep = Inr self' \<longrightarrow> wrapped (TomlDict (items self')))"
proof -
  have init: "wrapped (TomlDict (items (TomlDict_init d)))"
    using assms(3) by (auto simp: TomlDict_init_def wrapped_wrap)
  have "wrapped (wrap v)" using assms(2) by (rule wrapped_wrap)
  with assms(1) have seti: "wrapped (TomlDict (setitem (items self) k v))"
    using wrapped_update[of "items self" "wrap v" k] by (simp add: setitem_def)
  have seta: "\<not> prefix ''_'' k \<longrightarrow> wrapped (TomlDict (items (setattr self k v)))"
    using seti by (simp add: setattr_def)
  have priv: "prefix ''_'' k \<longrightarrow> items (setattr self k v) = items self"
    by (simp add: setattr_def)
  have nested: "wrapped (TomlDict (items self'))" if "set_nested self p v sep = Inr self'" for self'
  proof -
    from that obtain ks where "self' = self\<lparr>items := set_path True (items self) ks v\<rparr>"
      by (auto simp: set_nested_def split: sum.splits if_splits)
    then show ?thesis
      using wrapped_set_path[OF assms(1) assms(2), of ks] by simp
  qed
  from init seti seta priv nested show ?thesis by blast
qed

text \<open>The theorem at \<^verbatim>\<open>TomlDict({"a": {"b": 1}})\<close> and the value
  \<^verbatim>\<open>{"q": [{}]}\<close>, set at the path \<^verbatim>\<open>a.c.d\<close>.\<close>

theorem insertions_keep_wrapped_witness:
  "wrapped (TomlDict (items (TomlDict_init [(''a'', PDict [(''b'', PInt 1)])])))
   \<and> toml_ok (PDict [(''q'', PList [PDict []])])
   \<and> wrapped (TomlDict (items (TomlDict_init [(''k'', PDict [(''q'', PList [PDict []])])])))
   \<and> wrapped (TomlDict (setitem (items (TomlDict_init [(''a'', PDict [(''b'', PInt 1)])])) ''x''
                   (PDict [(''q'', PList [PDict []])])))
   \<and> wrapped (TomlDict (items (setattr (TomlDict_init [(''a'', PDict [(''b'', PInt 1)])]) ''x''
                   (PDict [(''q'', PList [PDict []])]))))
   \<and> set_nested (TomlDict_init [(''a'', PDict [(''b'', PInt 1)])]) (PathStr ''a.c.d'')
          (PDict [(''q'', PList [PDict []])]) ''.''
       = Inr \<lparr>items = [(''a'', TomlDict [(''b'', PInt 1),
                  (''c'', TomlDict [(''d'', TomlDict [(''q'', PList [TomlDict []])])])])], attrs = []\<rparr>
   \<and> wrapped (TomlDict [(''a'', TomlDict [(''b'', PInt 1),
                  (''c'', TomlDict [(''d'', TomlDict [(''q'', PList [TomlDict []])])])])])"
proof -
  have h1: "wrapped (TomlDict (items (TomlDict_init [(''a'', PDict [(''b'', PInt 1)])])))"
    by (simp add: TomlDict_init_def)
  have h2: "toml_ok (PDict [(''q'', PList [PDict []])])"
    by simp
  have h3: "\<forall>p \<in> set [(''k'', PDict [(''q'', PList [PDict []])])]. toml_ok (snd p)"
    by simp
  have np: "\<not> prefix ''_'' ''x''"
    by simp
  have sn: "set_nested (TomlDict_init [(''a'', PDict [(''b'', PInt 1)])]) (PathStr ''a.c.d'')
          (PDict [(''q'', PList [PDict []])]) ''.''
       = Inr \<lparr>items = [(''a'', TomlDict [(''b'', PInt 1),
                  (''c'', TomlDict [(''d'', TomlDict [(''q'', PList [TomlDict []])])])])], attrs = []\<rparr>"
    by (simp add: set_nested_def path_keys_def split_def TomlDict_init_def)
  note T = insertions_keep_wrapped[OF h1 h2 h3, of "''x''" "PathStr ''a.c.d''" "''.''"]
  from T sn have "wrapped (TomlDict (items \<lparr>items = [(''a'', TomlDict [(''b'', PInt 1),
                  (''c'', TomlDict [(''d'', TomlDict [(''q'', PList [TomlDict []])])])])], attrs = []\<rparr>))"
    by blast
  then have r: "wrapped (TomlDict [(''a'', TomlDict [(''b'', PInt 1),
                  (''c'', TomlDict [(''d'', TomlDict [(''q'', PList [TomlDict []])])])])])"
    by simp
  from T np h1 h2 sn r show ?thesis by blast
qed

text \<open>
  C8 as stated fails for attribute assignment: after \<^verbatim>\<open>td._cache = {"a": 1}\<close> the
  attribute \<^verbatim>\<open>td._cache\<close> is the plain dict, which is not a \<^verbatim>\<open>TomlDict\<close>.
\<close>

theorem private_attribute_counterexample:
  "map_of (attrs (setattr (TomlDict_init []) ''_cache'' (PDict [(''a'', PInt 1)]))) ''_cache''
     = Some (PDict [(''a'', PInt 1)])
   \<and> \<not> wrapped (PDict [(''a'', PInt 1)])"
  by (simp add: setattr_def TomlDict_init_def)

section \<open>Claims about the codec and the wrappers\<close>

text \<open>
  C1, as amended. Let the tree \<open>t\<close> hold no string equal to the sentinel \<open>s\<close>, and
  let the codec round-trip the tree in which the null markers of \<open>t\<close> are replaced by
  \<open>s\<close>: the serializer renders it and the parser reads that text back as the same
  tree. Then \<^verbatim>\<open>dumps(t, none_value=s)\<close> is that text and
  \<^verbatim>\<open>loads(..., none_value=s)\<close> of it is \<open>t\<close>.
\<close>

theorem null_sentinel_law:
  assumes "sentinel_free s t"
    and "S (null_to_sentinel s t) (arg_or False pretty) = Inr doc"
    and "P doc = Inr (null_to_sentinel s t)"
  shows "dumps (spec_deps P S reg) t pretty (Some (Some s)) = Inr doc
       \<and> loads (spec_deps P S reg) (ArgStr doc) (Some (Some s)) = Inr t"
  using assms
  by (simp add: dumps_def loads_def spec_deps_def renderDocument_def parseDocument_def
      arg_or_def sentinel_roundtrip)

text \<open>The theorem at \<^verbatim>\<open>{"a": None, "b": [1, None], "c": "x"}\<close> with the sentinel
  \<^verbatim>\<open>"null"\<close> and the codec of the model; the text is
  \<^verbatim>\<open>a = "null"\<close>, \<^verbatim>\<open>b = [1, "null"]\<close>, \<^verbatim>\<open>c = "x"\<close>.\<close>

theorem null_sentinel_law_witness:
  "sentinel_free ''null'' (Table [(''a'', Null), (''b'', Array [Integer 1, Null]), (''c'', String ''x'')])
   \<and> dumps model_deps (Table [(''a'', Null), (''b'', Array [Integer 1, Null]), (''c'', String ''x'')])
        None (Some (Some ''null''))
       = Inr (''a = '' @ [CHR 0x22] @ ''null'' @ [CHR 0x22, CHR 0x0A] @
              ''b = [1, '' @ [CHR 0x22] @ ''null'' @ [CHR 0x22] @ '']'' @ [CHR 0x0A] @
              ''c = '' @ [CHR 0x22] @ ''x'' @ [CHR 0x22, CHR 0x0A])
   \<and> loads model_deps (ArgStr (''a = '' @ [CHR 0x22] @ ''null'' @ [CHR 0x22, CHR 0x0A] @
              ''b = [1, '' @ [CHR 0x22] @ ''null'' @ [CHR 0x22] @ '']'' @ [CHR 0x0A] @
              ''c = '' @ [CHR 0x22] @ ''x'' @ [CHR 0x22, CHR 0x0A]))
        (Some (Some ''null''))
       = Inr (Table [(''a'', Null), (''b'', Array [Integer 1, Null]), (''c'', String ''x'')])"
proof -
  let ?t = "Table [(''a'', Null), (''b'', Array [Integer 1, Null]), (''c'', String ''x'')]"
  let ?doc = "''a = '' @ [CHR 0x22] @ ''null'' @ [CHR 0x22, CHR 0x0A] @
              ''b = [1, '' @ [CHR 0x22] @ ''null'' @ [CHR 0x22] @ '']'' @ [CHR 0x0A] @
              ''c = '' @ [CHR 0x22] @ ''x'' @ [CHR 0x22, CHR 0x0A]"
  have free: "sentinel_free ''null'' ?t"
    by simp
  have ser: "serialize_toml (null_to_sentinel ''null'' ?t) (arg_or False None) = Inr ?doc"
    by code_simp
  have par: "parse_toml ?doc = Inr (null_to_sentinel ''null'' ?t)"
    by code_simp
  from null_sentinel_law[where P = parse_toml and S = serialize_toml and reg = std_codecs
      and s = "''null''" and t = ?t and pretty = None and doc = ?doc, OF free ser par] free
  show ?thesis unfolding model_deps_def by blast
qed

text \<open>
  C1 as stated fails for a tree that holds the sentinel as a string:
  \<^verbatim>\<open>{"a": "null"}\<close> is rendered as \<^verbatim>\<open>a = "null"\<close> and read back, with the
  sentinel \<^verbatim>\<open>"null"\<close>, as \<^verbatim>\<open>{"a": None}\<close>.
\<close>

theorem null_sentinel_law_counterexample:
  "dumps model_deps (Table [(''a'', String ''null'')]) None (Some (Some ''null''))
     = Inr (''a = '' @ [CHR 0x22] @ ''null'' @ [CHR 0x22, CHR 0x0A])
   \<and> loads model_deps (ArgStr (''a = '' @ [CHR 0x22] @ ''null'' @ [CHR 0x22, CHR 0x0A])) (Some (Some ''null''))
     = Inr (Table [(''a'', Null)])
   \<and> Table [(''a'', Null)] \<noteq> Table [(''a'', String ''null'')]"
  by code_simp

end
